theory Spec2Isabelle
  imports
    Complex_Main
    "HOL-Library.Sublist"
    "HOL-Library.Multiset"
    "HOL-Library.Char_ord"
    "HOL-Library.List_Lexorder"
    "HOL-Library.Option_ord"
begin

section \<open>Strings and JavaScript values\<close>

text \<open>
  The server of \<^verbatim>\<open>dynamic_server.mjs\<close> works on JavaScript strings. They are modelled
  as \<^typ>\<open>string\<close>, the list of the bytes of their UTF-8 encoding: every token, tag and
  separator the program writes is ASCII, and a search for an ASCII text finds the same
  occurrences in the UTF-8 bytes as in the UTF-16 code units.
\<close>

subsection \<open>The template renderer\<close>

text \<open>
  \<^verbatim>\<open>renderTemplate\<close> (lines 34 to 41) walks over \<^verbatim>\<open>Object.entries(data)\<close> and calls
  \<^verbatim>\<open>rendered.replace(new RegExp(placeholder, 'g'), value ?? '')\<close> for each entry.

  The second argument of \<^verbatim>\<open>String.prototype.replace\<close> is a replacement pattern, not
  a plain text: ECMAScript's GetSubstitution expands \<^verbatim>\<open>$$\<close> to one dollar sign,
  \<^verbatim>\<open>$&\<close> to the matched text, \<^verbatim>\<open>$`\<close> to the part of the subject before the match and
  \<^verbatim>\<open>$'\<close> to the part after it. The expression built from a placeholder has no capture
  group, so \<^verbatim>\<open>$1\<close>, \<^verbatim>\<open>$<\<close> and every other pair stay as they are.
\<close>

fun getSubstitution :: "string \<Rightarrow> string \<Rightarrow> string \<Rightarrow> string \<Rightarrow> string" where
  "getSubstitution matched preceding following [] = []"
| "getSubstitution matched preceding following [c] = [c]"
| "getSubstitution matched preceding following (c # d # r) =
     (if c = CHR ''$'' \<and> d = CHR ''$'' then CHR ''$'' # getSubstitution matched preceding following r
      else if c = CHR ''$'' \<and> d = CHR ''&'' then matched @ getSubstitution matched preceding following r
      else if c = CHR ''$'' \<and> d = CHR 0x60 then preceding @ getSubstitution matched preceding following r
      else if c = CHR ''$'' \<and> d = CHR 0x27 then following @ getSubstitution matched preceding following r
      else c # getSubstitution matched preceding following (d # r))"

text \<open>
  A global replace scans the subject from left to right; a match is replaced by the
  expansion of the replacement pattern and the scan goes on behind the match, so matches
  do not overlap and an inserted text is not scanned again. \<open>pat\<close> is the text the
  expression matches literally, \<open>preceding\<close> the part of the subject already scanned.
\<close>

fun replace_from :: "string \<Rightarrow> string \<Rightarrow> string \<Rightarrow> string \<Rightarrow> string" where
  "replace_from pat rep preceding [] = []"
| "replace_from pat rep preceding (c # cs) =
     (if pat \<noteq> [] \<and> prefix pat (c # cs)
      then getSubstitution pat preceding (drop (length pat) (c # cs)) rep
             @ replace_from pat rep (preceding @ pat) (drop (length pat) (c # cs))
      else c # replace_from pat rep (preceding @ [c]) cs)"

definition replace_global :: "string \<Rightarrow> string \<Rightarrow> string \<Rightarrow> string" where
  "replace_global pat rep subject = replace_from pat rep [] subject"

text \<open>
  The placeholder \<^verbatim>\<open>{{key}}\<close> is handed to \<^verbatim>\<open>new RegExp\<close> as the source of a regular
  expression. Without the \<^verbatim>\<open>u\<close> flag a brace that does not form a quantifier is an
  ordinary character, so the expression matches the placeholder literally when the key
  is a name: letters, digits and underscores, not starting with a digit. Every key of the
  \<^verbatim>\<open>data\<close> objects of the four routes is such a name. For any other key (a key with
  \<^verbatim>\<open>.\<close>, \<^verbatim>\<open>$\<close>, \<^verbatim>\<open>(\<close>, or a number, which makes \<^verbatim>\<open>{12}\<close> a quantifier) the
  expression is not a literal text; the model has no regular expression engine and
  reports such a key as outside the model instead of guessing.
\<close>

definition is_digit :: "char \<Rightarrow> bool" where
  "is_digit c = (CHR ''0'' \<le> c \<and> c \<le> CHR ''9'')"

definition is_name_char :: "char \<Rightarrow> bool" where
  "is_name_char c =
     ((CHR ''a'' \<le> c \<and> c \<le> CHR ''z'') \<or> (CHR ''A'' \<le> c \<and> c \<le> CHR ''Z'')
      \<or> is_digit c \<or> c = CHR ''_'')"

definition name_key :: "string \<Rightarrow> bool" where
  "name_key k = (k \<noteq> [] \<and> \<not> is_digit (hd k) \<and> list_all is_name_char k)"

definition placeholder :: "string \<Rightarrow> string" where
  "placeholder key = ''{{'' @ key @ ''}}''"

datatype failure =
    TemplateReadError string
  | PatternOutsideModel string

text \<open>
  \<^verbatim>\<open>Object.entries(data)\<close> lists the entries of an object literal with name keys in the
  order they are written: an association list. A value is \<open>None\<close> when it is
  \<^verbatim>\<open>null\<close> or \<^verbatim>\<open>undefined\<close>, which \<^verbatim>\<open>value ?? ''\<close> turns into the empty text.
\<close>

type_synonym fields = "(string \<times> string option) list"

definition nullish_empty :: "string option \<Rightarrow> string" where
  "nullish_empty v = (case v of None \<Rightarrow> [] | Some s \<Rightarrow> s)"

fun renderTemplate :: "string \<Rightarrow> fields \<Rightarrow> failure + string" where
  "renderTemplate rendered [] = Inr rendered"
| "renderTemplate rendered ((key, v) # entries) =
     (if name_key key
      then renderTemplate (replace_global (placeholder key) (nullish_empty v) rendered) entries
      else Inl (PatternOutsideModel key))"


text \<open>
  The renderer's contract is stated over a template cut into pieces: literal text and
  \<^verbatim>\<open>{{key}}\<close> tokens. \<open>spec_render\<close> follows the words of the specification: every
  token whose key is in the mapping becomes that key's value, every other piece stays.
\<close>

datatype segment = Lit string | Tok string

fun segment_text :: "segment \<Rightarrow> string" where
  "segment_text (Lit s) = s"
| "segment_text (Tok k) = placeholder k"

definition template_text :: "segment list \<Rightarrow> string" where
  "template_text segs = concat (map segment_text segs)"

fun fill_segment :: "fields \<Rightarrow> segment \<Rightarrow> string" where
  "fill_segment d (Lit s) = s"
| "fill_segment d (Tok k) =
     (case map_of d k of None \<Rightarrow> placeholder k | Some v \<Rightarrow> nullish_empty v)"

definition spec_render :: "segment list \<Rightarrow> fields \<Rightarrow> string" where
  "spec_render segs d = concat (map (fill_segment d) segs)"

fun fill_one :: "string \<Rightarrow> string \<Rightarrow> segment \<Rightarrow> segment" where
  "fill_one k rep (Lit s) = Lit s"
| "fill_one k rep (Tok k') = (if k' = k then Lit rep else Tok k')"

definition brace_free :: "string \<Rightarrow> bool" where
  "brace_free s = (CHR ''{'' \<notin> set s \<and> CHR ''}'' \<notin> set s)"

fun plain_segment :: "segment \<Rightarrow> bool" where
  "plain_segment (Lit s) = (CHR ''{'' \<notin> set s)"
| "plain_segment (Tok k) = brace_free k"

definition plain_value :: "string option \<Rightarrow> bool" where
  "plain_value v =
     (CHR ''{'' \<notin> set (nullish_empty v) \<and> CHR ''$'' \<notin> set (nullish_empty v))"

definition plain_entry :: "string \<times> string option \<Rightarrow> bool" where
  "plain_entry e = (name_key (fst e) \<and> plain_value (snd e))"

subsection \<open>Numbers and values\<close>

text \<open>
  A JavaScript number is a binary64 float. The program compares numbers, takes the sign
  of a difference, prints them and reads them from decimal text, and does no other
  arithmetic. The model takes a finite number to be the rational its shortest decimal
  form denotes (the text \<^verbatim>\<open>Number.prototype.toString\<close> prints): that map is one to one
  and monotone, so equality, order and the sign of a difference are those of the
  rationals. Rounding is outside the model: a decimal text is read as its exact value
  (so a text of more than 15 significant digits, or one beyond the binary64 range, is
  not rounded), and a number is printed in plain positional notation (JavaScript
  switches to exponent notation from \<open>10\<^sup>2\<^sup>1\<close> on and below \<open>10\<^sup>-\<^sup>6\<close>).
\<close>

datatype jsnum = Fin rat | PosInf | NegInf | NaN

datatype jsval = JUndefined | JNull | JNum jsnum | JStr string

definition isNaN :: "jsnum \<Rightarrow> bool" where
  "isNaN n = (n = NaN)"

definition digit_char :: "nat \<Rightarrow> char" where
  "digit_char d = ''0123456789abcdef'' ! d"

function nat_digits :: "nat \<Rightarrow> string" where
  "nat_digits n = (if n < 10 then [digit_char n] else nat_digits (n div 10) @ [digit_char (n mod 10)])"
  by pat_completeness auto
termination
  by (relation "measure id") auto

declare nat_digits.simps [simp del]

fun frac_digits :: "nat \<Rightarrow> rat \<Rightarrow> string" where
  "frac_digits 0 f = []"
| "frac_digits (Suc fuel) f =
     (if f = 0 then []
      else digit_char (nat \<lfloor>f * 10\<rfloor>) # frac_digits fuel (f * 10 - of_int \<lfloor>f * 10\<rfloor>))"

definition number_to_string :: "rat \<Rightarrow> string" where
  "number_to_string x =
     (if x < 0 then ''-'' else [])
       @ nat_digits (nat \<lfloor>\<bar>x\<bar>\<rfloor>)
       @ (if \<bar>x\<bar> = of_int \<lfloor>\<bar>x\<bar>\<rfloor> then []
          else ''.'' @ frac_digits 24 (\<bar>x\<bar> - of_int \<lfloor>\<bar>x\<bar>\<rfloor>))"

fun jsnum_to_string :: "jsnum \<Rightarrow> string" where
  "jsnum_to_string (Fin x) = number_to_string x"
| "jsnum_to_string PosInf = ''Infinity''"
| "jsnum_to_string NegInf = ''-Infinity''"
| "jsnum_to_string NaN = ''NaN''"

text \<open>\<^verbatim>\<open>String(v)\<close> and the conversion a template literal applies to \<^verbatim>\<open>${v}\<close>.\<close>

fun ToString :: "jsval \<Rightarrow> string" where
  "ToString JUndefined = ''undefined''"
| "ToString JNull = ''null''"
| "ToString (JNum n) = jsnum_to_string n"
| "ToString (JStr s) = s"

text \<open>\<^verbatim>\<open>${v ?? 'N/A'}\<close>: the default replaces \<^verbatim>\<open>null\<close> and \<^verbatim>\<open>undefined\<close> only.\<close>

fun nullish_text :: "jsval \<Rightarrow> string \<Rightarrow> string" where
  "nullish_text JUndefined d = d"
| "nullish_text JNull d = d"
| "nullish_text v d = ToString v"


subsection \<open>Reading a number: \<^verbatim>\<open>Number(text)\<close>\<close>

text \<open>
  ECMAScript's StringToNumber: white space is trimmed at both ends, the empty text is
  \<open>0\<close>, and the rest must be a whole StrNumericLiteral: a signed decimal literal with
  optional fraction and exponent, \<^verbatim>\<open>Infinity\<close>, or an unsigned literal in base 16, 8 or
  2. Anything else is \<^verbatim>\<open>NaN\<close>. The white space characters are listed by their UTF-8
  bytes: tab, line feed, vertical tab, form feed, carriage return, space, U+00A0,
  U+1680, U+2000 to U+200A, U+2028, U+2029, U+202F, U+205F, U+3000 and U+FEFF.
\<close>

definition white_space :: "string list" where
  "white_space =
     [[CHR 0x09], [CHR 0x0A], [CHR 0x0B], [CHR 0x0C], [CHR 0x0D], [CHR 0x20],
      [CHR 0xC2, CHR 0xA0], [CHR 0xE1, CHR 0x9A, CHR 0x80],
      [CHR 0xE2, CHR 0x80, CHR 0x80], [CHR 0xE2, CHR 0x80, CHR 0x81],
      [CHR 0xE2, CHR 0x80, CHR 0x82], [CHR 0xE2, CHR 0x80, CHR 0x83],
      [CHR 0xE2, CHR 0x80, CHR 0x84], [CHR 0xE2, CHR 0x80, CHR 0x85],
      [CHR 0xE2, CHR 0x80, CHR 0x86], [CHR 0xE2, CHR 0x80, CHR 0x87],
      [CHR 0xE2, CHR 0x80, CHR 0x88], [CHR 0xE2, CHR 0x80, CHR 0x89],
      [CHR 0xE2, CHR 0x80, CHR 0x8A], [CHR 0xE2, CHR 0x80, CHR 0xA8],
      [CHR 0xE2, CHR 0x80, CHR 0xA9], [CHR 0xE2, CHR 0x80, CHR 0xAF],
      [CHR 0xE2, CHR 0x81, CHR 0x9F], [CHR 0xE3, CHR 0x80, CHR 0x80],
      [CHR 0xEF, CHR 0xBB, CHR 0xBF]]"

function strip_leading :: "string list \<Rightarrow> string \<Rightarrow> string" where
  "strip_leading seqs s =
     (case find (\<lambda>w. w \<noteq> [] \<and> prefix w s) seqs of
        None \<Rightarrow> s
      | Some w \<Rightarrow> strip_leading seqs (drop (length w) s))"
  by pat_completeness auto
termination
  by (relation "measure (\<lambda>(seqs, s). length s)") (auto simp: find_Some_iff prefix_def)

declare strip_leading.simps [simp del]

definition trim :: "string \<Rightarrow> string" where
  "trim s = rev (strip_leading (map rev white_space) (rev (strip_leading white_space s)))"

definition digit_value :: "char \<Rightarrow> int" where
  "digit_value c =
     (if is_digit c then of_char c - 48
      else if CHR ''a'' \<le> c \<and> c \<le> CHR ''f'' then of_char c - 87
      else if CHR ''A'' \<le> c \<and> c \<le> CHR ''F'' then of_char c - 55
      else 16)"

definition digits_value :: "int \<Rightarrow> string \<Rightarrow> int" where
  "digits_value base ds = foldl (\<lambda>a c. base * a + digit_value c) 0 ds"

definition all_digits :: "int \<Rightarrow> string \<Rightarrow> bool" where
  "all_digits base ds = (ds \<noteq> [] \<and> list_all (\<lambda>c. digit_value c < base) ds)"

definition parse_exponent :: "string \<Rightarrow> int option" where
  "parse_exponent s =
     (case s of
        [] \<Rightarrow> Some 0
      | e # r \<Rightarrow>
          if e = CHR ''e'' \<or> e = CHR ''E'' then
            (case r of
               [] \<Rightarrow> None
             | g # ds \<Rightarrow>
                 if g = CHR ''+'' then (if all_digits 10 ds then Some (digits_value 10 ds) else None)
                 else if g = CHR ''-'' then (if all_digits 10 ds then Some (- digits_value 10 ds) else None)
                 else if all_digits 10 r then Some (digits_value 10 r) else None)
          else None)"

definition scale10 :: "rat \<Rightarrow> int \<Rightarrow> rat" where
  "scale10 x e = (if 0 \<le> e then x * 10 ^ nat e else x / 10 ^ nat (- e))"

definition parse_unsigned_decimal :: "string \<Rightarrow> jsnum" where
  "parse_unsigned_decimal s =
     (if s = ''Infinity'' then PosInf
      else
        let ip = takeWhile is_digit s;
            r1 = dropWhile is_digit s;
            dot = (r1 \<noteq> [] \<and> hd r1 = CHR ''.'');
            fp = (if dot then takeWhile is_digit (tl r1) else []);
            r2 = (if dot then dropWhile is_digit (tl r1) else r1)
        in if ip = [] \<and> fp = [] then NaN
           else (case parse_exponent r2 of
                   None \<Rightarrow> NaN
                 | Some e \<Rightarrow>
                     Fin (scale10 (of_int (digits_value 10 ip)
                                   + of_int (digits_value 10 fp) / 10 ^ length fp) e)))"

fun negate :: "jsnum \<Rightarrow> jsnum" where
  "negate (Fin x) = Fin (- x)"
| "negate PosInf = NegInf"
| "negate NegInf = PosInf"
| "negate NaN = NaN"

definition parse_radix :: "int \<Rightarrow> string \<Rightarrow> jsnum" where
  "parse_radix base ds = (if all_digits base ds then Fin (of_int (digits_value base ds)) else NaN)"

definition js_Number :: "string \<Rightarrow> jsnum" where
  "js_Number s =
     (let t = trim s in
      if t = [] then Fin 0
      else if take 2 t = ''0x'' \<or> take 2 t = ''0X'' then parse_radix 16 (drop 2 t)
      else if take 2 t = ''0o'' \<or> take 2 t = ''0O'' then parse_radix 8 (drop 2 t)
      else if take 2 t = ''0b'' \<or> take 2 t = ''0B'' then parse_radix 2 (drop 2 t)
      else if hd t = CHR ''+'' then parse_unsigned_decimal (tl t)
      else if hd t = CHR ''-'' then negate (parse_unsigned_decimal (tl t))
      else parse_unsigned_decimal t)"


subsection \<open>Arrays\<close>

text \<open>
  \<^verbatim>\<open>Array.prototype.findIndex\<close> gives the first index whose element passes the test,
  or \<open>-1\<close>. \<^verbatim>\<open>indexOf\<close> tests with strict equality, under which \<^verbatim>\<open>NaN\<close> differs
  from itself. A read outside the array gives \<^verbatim>\<open>undefined\<close>. The remainder operator
  \<^verbatim>\<open>%\<close> takes the sign of its left operand and is \<^verbatim>\<open>NaN\<close> (here \<open>None\<close>) for a zero
  divisor.
\<close>

fun findIndex_from :: "int \<Rightarrow> ('a \<Rightarrow> bool) \<Rightarrow> 'a list \<Rightarrow> int" where
  "findIndex_from i test [] = - 1"
| "findIndex_from i test (x # xs) = (if test x then i else findIndex_from (i + 1) test xs)"

definition findIndex :: "('a \<Rightarrow> bool) \<Rightarrow> 'a list \<Rightarrow> int" where
  "findIndex test xs = findIndex_from 0 test xs"

definition strict_equals :: "jsval \<Rightarrow> jsval \<Rightarrow> bool" where
  "strict_equals a b = (a = b \<and> a \<noteq> JNum NaN)"

definition indexOf :: "jsval list \<Rightarrow> jsval \<Rightarrow> int" where
  "indexOf xs target = findIndex (\<lambda>x. strict_equals x target) xs"

definition js_remainder :: "int \<Rightarrow> int \<Rightarrow> int option" where
  "js_remainder a b = (if b = 0 then None else Some (sgn a * (\<bar>a\<bar> mod \<bar>b\<bar>)))"

definition js_at :: "jsval list \<Rightarrow> int option \<Rightarrow> jsval" where
  "js_at xs i =
     (case i of
        None \<Rightarrow> JUndefined
      | Some k \<Rightarrow> if 0 \<le> k \<and> k < int (length xs) then xs ! nat k else JUndefined)"

text \<open>
  The three parametric routes compute their neighbours with the same two expressions
  (lines 68 and 69, 128 and 129, 183 and 184):
  \<^verbatim>\<open>keys[(idx - 1 + keys.length) % keys.length]\<close> and \<^verbatim>\<open>keys[(idx + 1) % keys.length]\<close>.
\<close>

definition previous_key :: "jsval list \<Rightarrow> int \<Rightarrow> jsval" where
  "previous_key keys idx = js_at keys (js_remainder (idx - 1 + int (length keys)) (int (length keys)))"

definition next_key :: "jsval list \<Rightarrow> int \<Rightarrow> jsval" where
  "next_key keys idx = js_at keys (js_remainder (idx + 1) (int (length keys)))"

subsection \<open>Text conversions of the platform\<close>

text \<open>
  \<^verbatim>\<open>encodeURIComponent\<close> keeps letters, digits and \<^verbatim>\<open>- _ . ! ~ * ' ( )\<close> and writes every
  other byte of the UTF-8 encoding as \<^verbatim>\<open>%XX\<close> with upper-case hexadecimal digits.
\<close>

definition is_alpha :: "char \<Rightarrow> bool" where
  "is_alpha c = ((CHR ''a'' \<le> c \<and> c \<le> CHR ''z'') \<or> (CHR ''A'' \<le> c \<and> c \<le> CHR ''Z''))"

definition uri_unreserved :: "char \<Rightarrow> bool" where
  "uri_unreserved c =
     (is_alpha c \<or> is_digit c
      \<or> c \<in> set [CHR ''-'', CHR ''_'', CHR ''.'', CHR ''!'', CHR ''~'', CHR ''*'', CHR 0x27,
                     CHR ''('', CHR '')''])"

definition upper_hex :: "nat \<Rightarrow> char" where
  "upper_hex d = ''0123456789ABCDEF'' ! d"

definition encode_byte :: "char \<Rightarrow> string" where
  "encode_byte c =
     (if uri_unreserved c then [c]
      else [CHR ''%'', upper_hex (of_char c div 16), upper_hex (of_char c mod 16)])"

definition encodeURIComponent :: "string \<Rightarrow> string" where
  "encodeURIComponent s = concat (map encode_byte s)"

text \<open>
  \<^verbatim>\<open>JSON.stringify\<close> of an array: the elements between brackets, separated by commas.
  A text is quoted, with \<^verbatim>\<open>"\<close> and \<^verbatim>\<open>\\<close> escaped by a backslash and the control
  characters written as \<^verbatim>\<open>\b \t \n \f \r\<close> or \<^verbatim>\<open>\u00xx\<close>; a finite number is printed as
  \<^verbatim>\<open>String\<close> prints it; \<^verbatim>\<open>null\<close>, \<^verbatim>\<open>undefined\<close> and a number that is not finite
  give \<^verbatim>\<open>null\<close>.
\<close>

definition json_char :: "char \<Rightarrow> string" where
  "json_char c =
     (if c = CHR 0x22 then [CHR 0x5C, CHR 0x22]
      else if c = CHR 0x5C then [CHR 0x5C, CHR 0x5C]
      else if c = CHR 0x08 then [CHR 0x5C, CHR ''b'']
      else if c = CHR 0x09 then [CHR 0x5C, CHR ''t'']
      else if c = CHR 0x0A then [CHR 0x5C, CHR ''n'']
      else if c = CHR 0x0C then [CHR 0x5C, CHR ''f'']
      else if c = CHR 0x0D then [CHR 0x5C, CHR ''r'']
      else if c < CHR 0x20
        then [CHR 0x5C, CHR ''u'', CHR ''0'', CHR ''0'', digit_char (of_char c div 16),
              digit_char (of_char c mod 16)]
      else [c])"

definition json_quote :: "string \<Rightarrow> string" where
  "json_quote s = [CHR 0x22] @ concat (map json_char s) @ [CHR 0x22]"

fun json_value :: "jsval \<Rightarrow> string" where
  "json_value JUndefined = ''null''"
| "json_value JNull = ''null''"
| "json_value (JNum (Fin x)) = number_to_string x"
| "json_value (JNum n) = ''null''"
| "json_value (JStr s) = json_quote s"

fun join :: "string \<Rightarrow> string list \<Rightarrow> string" where
  "join sep [] = []"
| "join sep [x] = x"
| "join sep (x # y # ys) = x @ sep @ join sep (y # ys)"

definition JSON_stringify :: "jsval list \<Rightarrow> string" where
  "JSON_stringify xs = ''['' @ join '','' (map json_value xs) @ '']''"

text \<open>
  \<^verbatim>\<open>String.prototype.toLowerCase\<close> applies the Unicode lower-case mapping. The model
  covers the letters of Basic Latin and of the Latin-1 Supplement (U+00C0 to U+00DE
  without U+00D7, two bytes \<^verbatim>\<open>C3 80\<close> to \<^verbatim>\<open>C3 9E\<close> in UTF-8) and leaves every other
  character as it is; the case pairs of the other scripts are not in the model.
\<close>

definition ascii_lower :: "char \<Rightarrow> char" where
  "ascii_lower c = (if CHR ''A'' \<le> c \<and> c \<le> CHR ''Z'' then char_of (of_char c + (32::nat)) else c)"

fun toLowerCase :: "string \<Rightarrow> string" where
  "toLowerCase [] = []"
| "toLowerCase [c] = [ascii_lower c]"
| "toLowerCase (c # d # r) =
     (if c = CHR 0xC3 \<and> CHR 0x80 \<le> d \<and> d \<le> CHR 0x9E \<and> d \<noteq> CHR 0x97
      then c # char_of (of_char d + (32::nat)) # toLowerCase r
      else ascii_lower c # toLowerCase (d # r))"


section \<open>The route handlers\<close>

text \<open>
  A handler receives what the two \<^verbatim>\<open>db.all\<close> callbacks receive: either an error with
  its message (\<open>Inl\<close>) or the rows. A detail row has the three columns the detail
  queries select.
\<close>

text \<open>
  Modelled from the spec: the types of the columns of the table \<^verbatim>\<open>economic_data\<close>,
  whose declaration is not in the repository. The data model gives country as text,
  year and rank as integer or text, and the freedom index as numeric and nullable; the
  handlers guard country and year against \<^verbatim>\<open>null\<close>, so both may be \<^verbatim>\<open>null\<close> here.
\<close>

record row =
  country :: jsval
  year :: jsval
  FreedomIndex :: "rat option"

record response =
  status :: nat
  body :: string

type_synonym 'a query_result = "string + 'a list"

text \<open>
  \<^verbatim>\<open>readTemplate\<close> (lines 29 to 31) reads a file of the template directory with
  \<^verbatim>\<open>fs.readFileSync\<close>, which throws when the file cannot be read. No handler catches
  the exception, so the request gets no response from the handler.
\<close>

definition readTemplate :: "(string \<Rightarrow> string option) \<Rightarrow> string \<Rightarrow> failure + string" where
  "readTemplate templates filename =
     (case templates filename of None \<Rightarrow> Inl (TemplateReadError filename) | Some text \<Rightarrow> Inr text)"

definition indent :: "nat \<Rightarrow> string" where
  "indent n = CHR 0x0A # replicate n (CHR '' '')"

definition em_dash :: string where
  "em_dash = [CHR 0xE2, CHR 0x80, CHR 0x94]"

definition index_cell :: "rat option \<Rightarrow> string" where
  "index_cell v = (case v of None \<Rightarrow> ''N/A'' | Some x \<Rightarrow> number_to_string x)"

definition index_number :: "rat option \<Rightarrow> rat" where
  "index_number v = (case v of None \<Rightarrow> 0 | Some x \<Rightarrow> x)"

text \<open>
  \<^verbatim>\<open>Array.prototype.sort\<close> is stable: with a comparator \<open>cmp\<close>, an element goes before
  the elements it compares below and stays behind the earlier elements it ties with.
\<close>

fun insert_by :: "('a \<Rightarrow> 'a \<Rightarrow> bool) \<Rightarrow> 'a \<Rightarrow> 'a list \<Rightarrow> 'a list" where
  "insert_by le x [] = [x]"
| "insert_by le x (y # ys) = (if le x y then x # y # ys else y # insert_by le x ys)"

definition sort_by :: "('a \<Rightarrow> 'a \<Rightarrow> bool) \<Rightarrow> 'a list \<Rightarrow> 'a list" where
  "sort_by le xs = foldr (insert_by le) xs []"

subsection \<open>Route 1: \<^verbatim>\<open>/year/:year\<close> (lines 55 to 113)\<close>

definition year_target :: "string \<Rightarrow> jsval" where
  "year_target yearParam =
     (if isNaN (js_Number yearParam) then JStr yearParam else JNum (js_Number yearParam))"

definition year_tableRows :: "row list \<Rightarrow> string" where
  "year_tableRows rows =
     concat (map (\<lambda>r. indent 16 @ ''<tr>''
                       @ indent 20 @ ''<td>'' @ nullish_text (country r) ''N/A'' @ ''</td>''
                       @ indent 20 @ ''<td>'' @ index_cell (FreedomIndex r) @ ''</td>''
                       @ indent 16 @ ''</tr>'' @ indent 12) rows)"

definition compare_index :: "row \<Rightarrow> row \<Rightarrow> rat" where
  "compare_index a b = index_number (FreedomIndex b) - index_number (FreedomIndex a)"

definition year_top :: "row list \<Rightarrow> row list" where
  "year_top rows = take 10 (sort_by (\<lambda>a b. compare_index a b \<le> 0) rows)"

definition year_labels :: "row list \<Rightarrow> string list" where
  "year_labels rows =
     map (\<lambda>r. replace_global [CHR 0x22] [CHR 0x5C, CHR 0x22] (ToString (country r))) (year_top rows)"

definition year_values :: "row list \<Rightarrow> rat list" where
  "year_values rows = map (\<lambda>r. index_number (FreedomIndex r)) (year_top rows)"

definition year_data :: "string \<Rightarrow> jsval \<Rightarrow> jsval \<Rightarrow> row list \<Rightarrow> fields" where
  "year_data yearParam prevYear nextYear rows =
     [(''title'', Some (''Year '' @ yearParam @ '' '' @ em_dash @ '' Economic Freedom'')),
      (''pageTitle'', Some (''Year '' @ yearParam)),
      (''year'', Some yearParam),
      (''tableRows'', Some (year_tableRows rows)),
      (''prevLink'', Some (''/year/'' @ ToString prevYear)),
      (''nextLink'', Some (''/year/'' @ ToString nextYear)),
      (''chartLabels'', Some (JSON_stringify (map JStr (year_labels rows)))),
      (''chartData'', Some (JSON_stringify (map (\<lambda>v. JNum (Fin v)) (year_values rows))))]"


subsection \<open>Route 2: \<^verbatim>\<open>/country/:country\<close> (lines 116 to 167)\<close>

definition country_index :: "jsval list \<Rightarrow> string \<Rightarrow> int" where
  "country_index countries countryParam =
     findIndex (\<lambda>c. toLowerCase (ToString c) = toLowerCase countryParam) countries"

definition country_tableRows :: "row list \<Rightarrow> string" where
  "country_tableRows rows =
     concat (map (\<lambda>r. indent 16 @ ''<tr>''
                       @ indent 20 @ ''<td>'' @ nullish_text (year r) ''N/A'' @ ''</td>''
                       @ indent 20 @ ''<td>'' @ index_cell (FreedomIndex r) @ ''</td>''
                       @ indent 16 @ ''</tr>'' @ indent 12) rows)"

definition row_labels :: "row list \<Rightarrow> jsval list" where
  "row_labels rows = map year rows"

definition row_values :: "row list \<Rightarrow> rat list" where
  "row_values rows = map (\<lambda>r. index_number (FreedomIndex r)) rows"

definition country_data :: "jsval \<Rightarrow> jsval \<Rightarrow> row \<Rightarrow> row list \<Rightarrow> fields" where
  "country_data prev next first_row rows =
     [(''title'', Some (''Freedom '' @ em_dash @ '' '' @ ToString (country first_row))),
      (''pageTitle'', Some (''Freedom Scores: '' @ ToString (country first_row))),
      (''tableRows'', Some (country_tableRows rows)),
      (''prevLink'', Some (''/country/'' @ encodeURIComponent (ToString prev))),
      (''nextLink'', Some (''/country/'' @ encodeURIComponent (ToString next))),
      (''chartLabels'', Some (JSON_stringify (row_labels rows))),
      (''chartData'', Some (JSON_stringify (map (\<lambda>v. JNum (Fin v)) (row_values rows))))]"

definition country_route ::
  "(string \<Rightarrow> string option) \<Rightarrow> string \<Rightarrow> jsval query_result \<Rightarrow> row query_result
     \<Rightarrow> failure + response" where
  "country_route templates countryParam countryRows dataRows =
     (case countryRows of
        Inl message \<Rightarrow> Inr \<lparr>status = 500, body = ''Database error: '' @ message\<rparr>
      | Inr countries \<Rightarrow>
          let idx = country_index countries countryParam in
          if idx = - 1
          then Inr \<lparr>status = 404, body = ''Error: no data for country '' @ countryParam\<rparr>
          else
            let prev = previous_key countries idx;
                next = next_key countries idx
            in (case dataRows of
                  Inl message \<Rightarrow> Inr \<lparr>status = 500, body = ''Database error: '' @ message\<rparr>
                | Inr [] \<Rightarrow>
                    Inr \<lparr>status = 404, body = ''Error: no data for country '' @ countryParam\<rparr>
                | Inr (first_row # others) \<Rightarrow>
                    (case readTemplate templates ''country.html'' of
                       Inl f \<Rightarrow> Inl f
                     | Inr templateContent \<Rightarrow>
                         (case renderTemplate templateContent
                                 (country_data prev next first_row (first_row # others)) of
                            Inl f \<Rightarrow> Inl f
                          | Inr html \<Rightarrow> Inr \<lparr>status = 200, body = html\<rparr>))))"

subsection \<open>Route 3: \<^verbatim>\<open>/rank/:rank\<close> (lines 170 to 223)\<close>

definition rank_target :: "string \<Rightarrow> jsval" where
  "rank_target rankParam =
     (let numericRank = js_Number rankParam
      in if isNaN numericRank then JStr rankParam else JNum numericRank)"

definition rank_tableRows :: "row list \<Rightarrow> string" where
  "rank_tableRows rows =
     concat (map (\<lambda>r. indent 16 @ ''<tr>''
                       @ indent 20 @ ''<td>'' @ nullish_text (year r) ''N/A'' @ ''</td>''
                       @ indent 20 @ ''<td>'' @ nullish_text (country r) ''N/A'' @ ''</td>''
                       @ indent 20 @ ''<td>'' @ index_cell (FreedomIndex r) @ ''</td>''
                       @ indent 16 @ ''</tr>'' @ indent 12) rows)"

definition rank_data :: "string \<Rightarrow> jsval \<Rightarrow> jsval \<Rightarrow> row list \<Rightarrow> fields" where
  "rank_data rankParam prev next rows =
     [(''title'', Some (''Rank '' @ rankParam @ '' '' @ em_dash @ '' Economic Freedom'')),
      (''pageTitle'', Some (''Rank '' @ rankParam @ '' across years'')),
      (''tableRows'', Some (rank_tableRows rows)),
      (''prevLink'', Some (''/rank/'' @ encodeURIComponent (ToString prev))),
      (''nextLink'', Some (''/rank/'' @ encodeURIComponent (ToString next))),
      (''chartLabels'', Some (JSON_stringify (row_labels rows))),
      (''chartData'', Some (JSON_stringify (map (\<lambda>v. JNum (Fin v)) (row_values rows))))]"

definition rank_route ::
  "(string \<Rightarrow> string option) \<Rightarrow> string \<Rightarrow> jsval query_result \<Rightarrow> row query_result
     \<Rightarrow> failure + response" where
  "rank_route templates rankParam rankRows dataRows =
     (case rankRows of
        Inl message \<Rightarrow> Inr \<lparr>status = 500, body = ''Database error: '' @ message\<rparr>
      | Inr ranks \<Rightarrow>
          let idx = indexOf ranks (rank_target rankParam) in
          if idx = - 1
          then Inr \<lparr>status = 404, body = ''Error: no data for rank '' @ rankParam\<rparr>
          else
            let prev = previous_key ranks idx;
                next = next_key ranks idx
            in (case dataRows of
                  Inl message \<Rightarrow> Inr \<lparr>status = 500, body = ''Database error: '' @ message\<rparr>
                | Inr rows \<Rightarrow>
                    if rows = []
                    then Inr \<lparr>status = 404, body = ''Error: no data for rank '' @ rankParam\<rparr>
                    else
                      (case readTemplate templates ''rank.html'' of
                         Inl f \<Rightarrow> Inl f
                       | Inr templateContent \<Rightarrow>
                           (case renderTemplate templateContent
                                   (rank_data rankParam prev next rows) of
                              Inl f \<Rightarrow> Inl f
                            | Inr html \<Rightarrow> Inr \<lparr>status = 200, body = html\<rparr>))))"


section \<open>The dataset and the country queries\<close>

text \<open>
  Modelled from the spec: the table \<^verbatim>\<open>economic_data\<close>, whose declaration is not in
  the repository, as the list of its records with the four columns of the data model:
  country (text, \<open>None\<close> for \<^verbatim>\<open>NULL\<close>), year and rank (integer or text), and
  \<^verbatim>\<open>economic_freedom_summary_index\<close> (numeric, nullable).

  The two statements of the country route are read with SQLite's meaning: values are
  ordered \<^verbatim>\<open>NULL\<close> first, then numbers by value, then text byte by byte;
  \<^verbatim>\<open>lower\<close> folds the letters A to Z only and leaves every other byte; a comparison
  with \<^verbatim>\<open>NULL\<close> selects no row. Rows that tie under \<^verbatim>\<open>ORDER BY\<close> keep the order
  of the table.
\<close>

datatype sqlval = SqlNull | SqlNum rat | SqlText string

record economic_data =
  col_country :: "string option"
  col_year :: sqlval
  col_rank :: sqlval
  col_index :: "rat option"

fun js_of_sql :: "sqlval \<Rightarrow> jsval" where
  "js_of_sql SqlNull = JNull"
| "js_of_sql (SqlNum x) = JNum (Fin x)"
| "js_of_sql (SqlText s) = JStr s"

definition js_of_text :: "string option \<Rightarrow> jsval" where
  "js_of_text v = (case v of None \<Rightarrow> JNull | Some s \<Rightarrow> JStr s)"

fun sql_le :: "sqlval \<Rightarrow> sqlval \<Rightarrow> bool" where
  "sql_le SqlNull b = True"
| "sql_le (SqlNum x) SqlNull = False"
| "sql_le (SqlNum x) (SqlNum y) = (x \<le> y)"
| "sql_le (SqlNum x) (SqlText t) = True"
| "sql_le (SqlText s) (SqlText t) = (s \<le> t)"
| "sql_le (SqlText s) b = False"

definition sql_lower :: "string \<Rightarrow> string" where
  "sql_lower s = map ascii_lower s"

text \<open>\<^verbatim>\<open>SELECT DISTINCT country AS c FROM economic_data ORDER BY c\<close> (line 120).\<close>

definition listDistinctCountries :: "economic_data list \<Rightarrow> jsval list" where
  "listDistinctCountries table = map js_of_text (sort (remdups (map col_country table)))"

text \<open>
  \<^verbatim>\<open>SELECT country, year, economic_freedom_summary_index as FreedomIndex
  FROM economic_data WHERE lower(country) = lower(?)
  ORDER BY FreedomIndex DESC, year DESC\<close> (lines 131 to 139), with the country
  parameter bound to \<^verbatim>\<open>?\<close>.
\<close>

definition country_matches :: "string \<Rightarrow> economic_data \<Rightarrow> bool" where
  "country_matches param e =
     (case col_country e of None \<Rightarrow> False | Some c \<Rightarrow> sql_lower c = sql_lower param)"

definition index_desc_year_desc :: "economic_data \<Rightarrow> economic_data \<Rightarrow> bool" where
  "index_desc_year_desc a b =
     (col_index b < col_index a \<or> (col_index a = col_index b \<and> sql_le (col_year b) (col_year a)))"

definition select_row :: "economic_data \<Rightarrow> row" where
  "select_row e =
     \<lparr>country = js_of_text (col_country e), year = js_of_sql (col_year e),
      FreedomIndex = col_index e\<rparr>"

definition recordsForCountry :: "economic_data list \<Rightarrow> string \<Rightarrow> row list" where
  "recordsForCountry table param =
     map select_row (sort_by index_desc_year_desc (filter (country_matches param) table))"

text \<open>The country route on a dataset whose two queries succeed.\<close>

definition country_page ::
  "(string \<Rightarrow> string option) \<Rightarrow> economic_data list \<Rightarrow> string \<Rightarrow> failure + response" where
  "country_page templates table countryParam =
     country_route templates countryParam (Inr (listDistinctCountries table))
       (Inr (recordsForCountry table countryParam))"


section \<open>Sample data\<close>


definition link_templates :: "string \<Rightarrow> string option" where
  "link_templates filename = Some ''{{prevLink}} {{nextLink}}''"

definition table_templates :: "string \<Rightarrow> string option" where
  "table_templates filename = Some ''<table>{{tableRows}}</table>''"

definition sample_row :: row where
  "sample_row = \<lparr>country = JStr ''Chile'', year = JNum (Fin 2020), FreedomIndex = Some (81 / 10)\<rparr>"


definition seed :: "economic_data list" where
  "seed =
     [\<lparr>col_country = Some ''Chile'', col_year = SqlNum 2020, col_rank = SqlNum 1,
       col_index = Some (81 / 10)\<rparr>,
      \<lparr>col_country = Some ''Chile'', col_year = SqlNum 2021, col_rank = SqlNum 2,
       col_index = Some (83 / 10)\<rparr>]"

definition aland_upper :: string where
  "aland_upper = [CHR 0xC3, CHR 0x85] @ ''land''"

definition aland_lower :: string where
  "aland_lower = [CHR 0xC3, CHR 0xA5] @ ''land''"

definition aland_table :: "economic_data list" where
  "aland_table =
     [\<lparr>col_country = Some aland_upper, col_year = SqlNum 2020, col_rank = SqlNum 50,
       col_index = Some 8\<rparr>]"

section \<open>Properties of the template renderer\<close>

lemma name_char_no_brace: "is_name_char c \<Longrightarrow> c \<noteq> CHR ''{'' \<and> c \<noteq> CHR ''}'' \<and> c \<noteq> CHR ''$''"
  by (auto simp: is_name_char_def is_digit_def less_eq_char_def)

lemma name_key_brace_free: "name_key k \<Longrightarrow> brace_free k"
  using name_char_no_brace by (auto simp: name_key_def brace_free_def list_all_iff)


lemma getSubstitution_verbatim:
  "CHR ''$'' \<notin> set rep \<Longrightarrow> getSubstitution m b a rep = rep"
  by (induction m b a rep rule: getSubstitution.induct) auto

lemma replace_from_skip:
  "pat \<noteq> [] \<Longrightarrow> hd pat \<notin> set u \<Longrightarrow>
   replace_from pat rep pre (u @ r) = u @ replace_from pat rep (pre @ u) r"
proof (induction u arbitrary: pre)
  case Nil
  then show ?case by simp
next
  case (Cons c u)
  then have "\<not> prefix pat (c # (u @ r))"
    by (cases pat) auto
  with Cons show ?case by simp
qed

lemma replace_from_match:
  assumes "pat \<noteq> []" "CHR ''$'' \<notin> set rep"
  shows "replace_from pat rep pre (pat @ r) = rep @ replace_from pat rep (pre @ pat) r"
proof -
  obtain c cs where cs: "pat @ r = c # cs" using assms(1) by (cases pat) auto
  have "prefix pat (c # cs)" using cs by (metis prefixI)
  moreover have "drop (length pat) (c # cs) = r"
    using cs by (metis append_eq_conv_conj)
  ultimately have "replace_from pat rep pre (c # cs) = rep @ replace_from pat rep (pre @ pat) r"
    using assms by (simp add: getSubstitution_verbatim)
  then show ?thesis by (simp add: cs)
qed

lemma key_prefix_eq:
  "brace_free k \<Longrightarrow> brace_free k' \<Longrightarrow> prefix (k @ ''}}'') (k' @ ''}}'' @ r) \<Longrightarrow> k = k'"
proof (induction k arbitrary: k')
  case Nil
  then show ?case by (cases k') (auto simp: brace_free_def)
next
  case (Cons c k)
  then show ?case by (cases k') (auto simp: brace_free_def)
qed

lemma placeholder_prefix_eq:
  "brace_free k \<Longrightarrow> brace_free k' \<Longrightarrow> prefix (placeholder k) (placeholder k' @ r) \<Longrightarrow> k = k'"
  using key_prefix_eq[of k k' r] by (simp add: placeholder_def)

lemma replace_from_other_token:
  assumes "brace_free k" "brace_free k'" "k \<noteq> k'"
  shows "replace_from (placeholder k) rep pre (placeholder k' @ r)
         = placeholder k' @ replace_from (placeholder k) rep (pre @ placeholder k') r"
proof -
  let ?p = "placeholder k"
  have ne: "?p \<noteq> []" by (simp add: placeholder_def)
  have hd: "hd ?p = CHR ''{''" by (simp add: placeholder_def)
  have n0: "\<not> prefix ?p (placeholder k' @ r)"
    using assms placeholder_prefix_eq by blast
  have n1: "\<not> prefix ?p (CHR ''{'' # k' @ ''}}'' @ r)"
    using assms(2) by (cases k') (auto simp: placeholder_def brace_free_def)
  have tail: "hd ?p \<notin> set (k' @ ''}}'')"
    using assms(2) by (simp add: hd brace_free_def)
  have s0: "replace_from ?p rep pre (placeholder k' @ r)
            = CHR ''{'' # replace_from ?p rep (pre @ ''{'') (CHR ''{'' # k' @ ''}}'' @ r)"
    using n0 by (simp add: placeholder_def[of k'])
  have s1: "replace_from ?p rep (pre @ ''{'') (CHR ''{'' # k' @ ''}}'' @ r)
            = CHR ''{'' # replace_from ?p rep (pre @ ''{{'') ((k' @ ''}}'') @ r)"
    using n1 by simp
  have s2: "replace_from ?p rep (pre @ ''{{'') ((k' @ ''}}'') @ r)
            = (k' @ ''}}'') @ replace_from ?p rep ((pre @ ''{{'') @ (k' @ ''}}'')) r"
    using replace_from_skip[OF ne tail] by blast
  show ?thesis
    unfolding s0 s1 s2 by (simp add: placeholder_def[of k'])
qed

lemma one_pass:
  assumes "brace_free k" "CHR ''$'' \<notin> set rep" "list_all plain_segment segs"
  shows "replace_from (placeholder k) rep pre (template_text segs)
         = template_text (map (fill_one k rep) segs)"
  using assms(3)
proof (induction segs arbitrary: pre)
  case Nil
  then show ?case by (simp add: template_text_def)
next
  case (Cons g segs)
  have ne: "placeholder k \<noteq> []" by (simp add: placeholder_def)
  have hd: "hd (placeholder k) = CHR ''{''" by (simp add: placeholder_def)
  from Cons.prems have rest: "list_all plain_segment segs" by simp
  note IH = Cons.IH[OF rest]
  show ?case
  proof (cases g)
    case (Lit s)
    with Cons.prems have "hd (placeholder k) \<notin> set s" by (simp add: hd)
    from replace_from_skip[OF ne this] IH show ?thesis
      by (simp add: Lit template_text_def)
  next
    case (Tok k')
    with Cons.prems have bf: "brace_free k'" by simp
    show ?thesis
    proof (cases "k' = k")
      case True
      with replace_from_match[OF ne assms(2)] IH show ?thesis
        by (simp add: Tok template_text_def)
    next
      case False
      then have "k \<noteq> k'" by simp
      from replace_from_other_token[OF assms(1) bf this] IH False show ?thesis
        by (simp add: Tok template_text_def)
    qed
  qed
qed

lemma fill_one_plain:
  assumes "CHR ''{'' \<notin> set rep" "list_all plain_segment segs"
  shows "list_all plain_segment (map (fill_one k rep) segs)"
proof -
  have "plain_segment g \<Longrightarrow> plain_segment (fill_one k rep g)" for g
    using assms(1) by (cases g) auto
  with assms(2) show ?thesis by (simp add: list_all_iff)
qed

lemma spec_render_Cons:
  "spec_render segs ((k, v) # d) = spec_render (map (fill_one k (nullish_empty v)) segs) d"
proof -
  have "fill_segment ((k, v) # d) g = fill_segment d (fill_one k (nullish_empty v) g)" for g
    by (cases g) auto
  then have "fill_segment ((k, v) # d) = fill_segment d \<circ> fill_one k (nullish_empty v)"
    by (simp add: fun_eq_iff)
  then show ?thesis by (simp add: spec_render_def)
qed

lemma spec_render_Nil: "spec_render segs [] = template_text segs"
proof -
  have "fill_segment [] g = segment_text g" for g by (cases g) auto
  then have "fill_segment [] = segment_text" by (simp add: fun_eq_iff)
  then show ?thesis by (simp add: spec_render_def template_text_def)
qed

text \<open>
  C2, as the code has it. For a template made of literal text without an opening brace
  and of tokens whose keys have no brace, and a field mapping whose keys are names and
  whose values (the empty text for a null value) contain neither an opening brace nor a
  dollar sign, \<open>renderTemplate\<close> returns the template with every token whose key is in
  the mapping replaced by that key's value, verbatim, and every other token and all
  literal text unchanged.
\<close>

theorem render_replaces_known_tokens:
  assumes "list_all plain_entry d" and "list_all plain_segment segs"
  shows "renderTemplate (template_text segs) d = Inr (spec_render segs d)"
  using assms
proof (induction d arbitrary: segs)
  case Nil
  then show ?case by (simp add: spec_render_Nil)
next
  case (Cons e d)
  obtain k v where e: "e = (k, v)" by (cases e)
  from Cons.prems e have nk: "name_key k" and pv: "plain_value v"
    by (simp_all add: plain_entry_def)
  from Cons.prems have rest: "list_all plain_entry d" by simp
  from pv have dollar: "CHR ''$'' \<notin> set (nullish_empty v)"
    and brace: "CHR ''{'' \<notin> set (nullish_empty v)"
    by (auto simp: plain_value_def)
  have "renderTemplate (template_text segs) (e # d)
        = renderTemplate (template_text (map (fill_one k (nullish_empty v)) segs)) d"
    using nk one_pass[OF name_key_brace_free[OF nk] dollar Cons.prems(2)]
    by (simp add: e replace_global_def)
  also have "\<dots> = Inr (spec_render (map (fill_one k (nullish_empty v)) segs) d)"
    by (rule Cons.IH[OF rest fill_one_plain[OF brace Cons.prems(2)]])
  finally show ?case by (simp add: e spec_render_Cons)
qed

theorem render_replaces_known_tokens_witness:
  "list_all plain_entry [(''pageTitle'', Some ''Year 2020''), (''year'', None)]
   \<and> list_all plain_segment [Lit ''<h1>'', Tok ''pageTitle'', Lit ''</h1> '', Tok ''year'', Tok ''other'']
   \<and> renderTemplate ''<h1>{{pageTitle}}</h1> {{year}}{{other}}''
        [(''pageTitle'', Some ''Year 2020''), (''year'', None)]
      = Inr ''<h1>Year 2020</h1> {{other}}''"
proof -
  have d: "list_all plain_entry [(''pageTitle'', Some ''Year 2020''), (''year'', None)]"
    by code_simp
  have s: "list_all plain_segment
             [Lit ''<h1>'', Tok ''pageTitle'', Lit ''</h1> '', Tok ''year'', Tok ''other'']"
    by code_simp
  have t: "template_text [Lit ''<h1>'', Tok ''pageTitle'', Lit ''</h1> '', Tok ''year'', Tok ''other'']
           = ''<h1>{{pageTitle}}</h1> {{year}}{{other}}''"
    by code_simp
  have r: "spec_render [Lit ''<h1>'', Tok ''pageTitle'', Lit ''</h1> '', Tok ''year'', Tok ''other'']
             [(''pageTitle'', Some ''Year 2020''), (''year'', None)]
           = ''<h1>Year 2020</h1> {{other}}''"
    by code_simp
  from render_replaces_known_tokens[OF d s] d s show ?thesis
    unfolding t r by simp
qed

text \<open>
  C2, as the specification words it, fails: the passes run one after the other, so a
  value that holds the token of a later field is not the text that ends up in the page.
\<close>

theorem render_not_simultaneous:
  "template_text [Tok ''a''] = ''{{a}}''
   \<and> spec_render [Tok ''a''] [(''a'', Some ''{{b}}''), (''b'', Some ''X'')] = ''{{b}}''
   \<and> renderTemplate ''{{a}}'' [(''a'', Some ''{{b}}''), (''b'', Some ''X'')] = Inr ''X''
   \<and> renderTemplate (template_text [Tok ''a'']) [(''a'', Some ''{{b}}''), (''b'', Some ''X'')]
       \<noteq> Inr (spec_render [Tok ''a''] [(''a'', Some ''{{b}}''), (''b'', Some ''X'')])"
  by code_simp

text \<open>
  A value is not inserted verbatim either when it holds a dollar sign: \<^verbatim>\<open>replace\<close> reads
  it as a replacement pattern.
\<close>

lemma render_expands_dollar_patterns:
  "renderTemplate ''<p>{{a}}</p>'' [(''a'', Some ''$$ $& $1'')] = Inr ''<p>$ {{a}} $1</p>''"
  by code_simp





section \<open>Navigation between keys\<close>

lemma findIndex_from_found:
  "findIndex_from i test xs \<noteq> - 1 \<Longrightarrow> 0 \<le> i \<Longrightarrow>
   i \<le> findIndex_from i test xs \<and> findIndex_from i test xs < i + int (length xs)
   \<and> test (xs ! nat (findIndex_from i test xs - i))"
proof (induction xs arbitrary: i)
  case Nil
  then show ?case by simp
next
  case (Cons x xs)
  show ?case
  proof (cases "test x")
    case True
    then show ?thesis by simp
  next
    case False
    with Cons.prems have ne: "findIndex_from (i + 1) test xs \<noteq> - 1" by simp
    from Cons.IH[OF ne] Cons.prems(2)
    have ih: "i + 1 \<le> findIndex_from (i + 1) test xs"
      "findIndex_from (i + 1) test xs < i + 1 + int (length xs)"
      "test (xs ! nat (findIndex_from (i + 1) test xs - (i + 1)))" by auto
    have "nat (findIndex_from (i + 1) test xs - i) = Suc (nat (findIndex_from (i + 1) test xs - (i + 1)))"
      using ih(1) by linarith
    with ih False show ?thesis by simp
  qed
qed

lemma findIndex_found:
  assumes "findIndex test xs \<noteq> - 1"
  shows "0 \<le> findIndex test xs" "findIndex test xs < int (length xs)"
    "test (xs ! nat (findIndex test xs))"
  using findIndex_from_found[of 0 test xs] assms by (simp_all add: findIndex_def)







text \<open>
  C10. When the key sequence of a route holds one key and the lookup finds it, the
  previous key and the next key are that key, and the links of the three routes are
  built from it.
\<close>

theorem single_key_navigation:
  assumes "idx = indexOf [k] (year_target param) \<or> idx = country_index [k] param
           \<or> idx = indexOf [k] (rank_target param)"
    and "idx \<noteq> - 1"
  shows "idx = 0 \<and> previous_key [k] idx = k \<and> next_key [k] idx = k
         \<and> map_of (year_data param (previous_key [k] idx) (next_key [k] idx) rows) ''prevLink''
             = Some (Some (''/year/'' @ ToString k))
         \<and> map_of (year_data param (previous_key [k] idx) (next_key [k] idx) rows) ''nextLink''
             = Some (Some (''/year/'' @ ToString k))
         \<and> map_of (country_data (previous_key [k] idx) (next_key [k] idx) r0 rows) ''prevLink''
             = Some (Some (''/country/'' @ encodeURIComponent (ToString k)))
         \<and> map_of (country_data (previous_key [k] idx) (next_key [k] idx) r0 rows) ''nextLink''
             = Some (Some (''/country/'' @ encodeURIComponent (ToString k)))
         \<and> map_of (rank_data param (previous_key [k] idx) (next_key [k] idx) rows) ''prevLink''
             = Some (Some (''/rank/'' @ encodeURIComponent (ToString k)))
         \<and> map_of (rank_data param (previous_key [k] idx) (next_key [k] idx) rows) ''nextLink''
             = Some (Some (''/rank/'' @ encodeURIComponent (ToString k)))"
proof -
  from assms obtain test where "idx = findIndex test [k]"
    unfolding indexOf_def country_index_def by blast
  with assms(2) findIndex_found(1,2)[of test "[k]"]
  have zero: "idx = 0" by simp
  have p: "previous_key [k] 0 = k"
    by (simp add: previous_key_def js_remainder_def js_at_def)
  have n: "next_key [k] 0 = k"
    by (simp add: next_key_def js_remainder_def js_at_def)
  show ?thesis
    unfolding zero p n by (simp add: year_data_def country_data_def rank_data_def)
qed

theorem single_key_navigation_witness:
  "country_index [JStr ''Chile''] ''chile'' = 0
   \<and> previous_key [JStr ''Chile''] 0 = JStr ''Chile''
   \<and> next_key [JStr ''Chile''] 0 = JStr ''Chile''"
proof -
  have found: "country_index [JStr ''Chile''] ''chile'' = 0" by code_simp
  then have a: "(0::int) = indexOf [JStr ''Chile''] (year_target ''chile'')
                \<or> 0 = country_index [JStr ''Chile''] ''chile''
                \<or> 0 = indexOf [JStr ''Chile''] (rank_target ''chile'')" by simp
  from single_key_navigation[OF a] found show ?thesis by simp
qed

section \<open>Matching the requested key\<close>







section \<open>Responses of the year route\<close>






section \<open>Links and chart arrays\<close>

lemma encode_unreserved:
  "list_all uri_unreserved s \<Longrightarrow> encodeURIComponent s = s"
  by (induction s) (simp_all add: encodeURIComponent_def encode_byte_def)

text \<open>
  C6, as the specification words it, fails for the rank route: a rank key with a space
  is URL-encoded in the link.
\<close>

theorem rank_link_is_encoded:
  "rank_route link_templates ''top 10'' (Inr [JStr ''top 10'']) (Inr [sample_row])
   = Inr \<lparr>status = 200, body = ''/rank/top%2010 /rank/top%2010''\<rparr>"
  by code_simp

text \<open>
  C6, as the code has it. The country route and the rank route pass the previous and
  the next key through \<open>encodeURIComponent\<close> when they build \<open>prevLink\<close> and
  \<open>nextLink\<close>; the year route puts the key's text into the link as it is.
\<close>

theorem link_encoding:
  "map_of (year_data p prev next rows) ''prevLink'' = Some (Some (''/year/'' @ ToString prev))
   \<and> map_of (year_data p prev next rows) ''nextLink'' = Some (Some (''/year/'' @ ToString next))
   \<and> map_of (country_data prev next r0 rows) ''prevLink''
       = Some (Some (''/country/'' @ encodeURIComponent (ToString prev)))
   \<and> map_of (country_data prev next r0 rows) ''nextLink''
       = Some (Some (''/country/'' @ encodeURIComponent (ToString next)))
   \<and> map_of (rank_data p prev next rows) ''prevLink''
       = Some (Some (''/rank/'' @ encodeURIComponent (ToString prev)))
   \<and> map_of (rank_data p prev next rows) ''nextLink''
       = Some (Some (''/rank/'' @ encodeURIComponent (ToString next)))
   \<and> encodeURIComponent ''Costa Rica'' = ''Costa%20Rica''"
proof -
  have "encodeURIComponent ''Costa Rica'' = ''Costa%20Rica''" by code_simp
  then show ?thesis
    by (simp add: year_data_def country_data_def rank_data_def)
qed

lemma mset_insert_by: "mset (insert_by le x xs) = add_mset x (mset xs)"
  by (induction xs) auto

lemma mset_sort_by: "mset (sort_by le xs) = mset xs"
  by (induction xs) (auto simp: sort_by_def mset_insert_by)


lemma set_insert_by: "set (insert_by le x xs) = insert x (set xs)"
  by (induction xs) auto

lemma sorted_insert_by:
  assumes total: "\<And>a b. le a b \<or> le b a"
    and trans: "\<And>a b c. le a b \<Longrightarrow> le b c \<Longrightarrow> le a c"
  shows "sorted_wrt le xs \<Longrightarrow> sorted_wrt le (insert_by le x xs)"
proof (induction xs)
  case Nil
  then show ?case by simp
next
  case (Cons y ys)
  show ?case
  proof (cases "le x y")
    case True
    with Cons.prems trans show ?thesis by auto
  next
    case False
    with total have "le y x" by blast
    with Cons False show ?thesis by (auto simp: set_insert_by)
  qed
qed

lemma sorted_sort_by:
  assumes total: "\<And>a b. le a b \<or> le b a"
    and trans: "\<And>a b c. le a b \<Longrightarrow> le b c \<Longrightarrow> le a c"
  shows "sorted_wrt le (sort_by le xs)"
proof (induction xs)
  case Nil
  then show ?case by (simp add: sort_by_def)
next
  case (Cons x xs)
  have "sort_by le (x # xs) = insert_by le x (sort_by le xs)" by (simp add: sort_by_def)
  with sorted_insert_by[of le, OF total trans Cons] show ?case by simp
qed




section \<open>The country query\<close>

lemma sql_le_total: "sql_le a b \<or> sql_le b a"
  by (cases a; cases b) auto

lemma sql_le_trans: "sql_le a b \<Longrightarrow> sql_le b c \<Longrightarrow> sql_le a c"
  by (cases a; cases b; cases c) auto

lemma index_desc_year_desc_total: "index_desc_year_desc a b \<or> index_desc_year_desc b a"
  using sql_le_total[of "col_year a" "col_year b"]
  by (auto simp: index_desc_year_desc_def)

lemma index_desc_year_desc_trans:
  "index_desc_year_desc a b \<Longrightarrow> index_desc_year_desc b c \<Longrightarrow> index_desc_year_desc a c"
  using sql_le_trans[of "col_year c" "col_year b" "col_year a"]
  by (auto simp: index_desc_year_desc_def)

text \<open>
  What holds of the country query on every dataset: it returns the selected columns of
  exactly the records whose country equals the parameter once the letters A to Z of
  both are folded to lower case, each as often as it occurs, ordered by freedom index
  descending (\<^verbatim>\<open>NULL\<close> last) and then by year descending; on the seed data of the
  specification it returns the record of 2021 before the record of 2020.
\<close>

lemma recordsForCountry_ordered:
  "recordsForCountry table param
     = map select_row (sort_by index_desc_year_desc
         (filter (\<lambda>e. \<exists>c. col_country e = Some c \<and> map ascii_lower c = map ascii_lower param) table))
   \<and> mset (sort_by index_desc_year_desc (filter (country_matches param) table))
       = mset (filter (country_matches param) table)
   \<and> sorted_wrt (\<lambda>a b. col_index b < col_index a
                       \<or> (col_index a = col_index b \<and> sql_le (col_year b) (col_year a)))
        (sort_by index_desc_year_desc (filter (country_matches param) table))
   \<and> recordsForCountry seed ''chile''
       = [\<lparr>country = JStr ''Chile'', year = JNum (Fin 2021), FreedomIndex = Some (83 / 10)\<rparr>,
          \<lparr>country = JStr ''Chile'', year = JNum (Fin 2020), FreedomIndex = Some (81 / 10)\<rparr>]"
proof -
  have m: "country_matches param
           = (\<lambda>e. \<exists>c. col_country e = Some c \<and> map ascii_lower c = map ascii_lower param)"
    by (auto simp: country_matches_def sql_lower_def fun_eq_iff split: option.splits)
  have a: "recordsForCountry table param
     = map select_row (sort_by index_desc_year_desc
         (filter (\<lambda>e. \<exists>c. col_country e = Some c \<and> map ascii_lower c = map ascii_lower param) table))"
    by (simp add: recordsForCountry_def m)
  have s: "sorted_wrt index_desc_year_desc
             (sort_by index_desc_year_desc (filter (country_matches param) table))"
    by (rule sorted_sort_by[OF index_desc_year_desc_total index_desc_year_desc_trans])
  have o: "sorted_wrt (\<lambda>a b. col_index b < col_index a
                       \<or> (col_index a = col_index b \<and> sql_le (col_year b) (col_year a)))
        (sort_by index_desc_year_desc (filter (country_matches param) table))"
    using s by (rule sorted_wrt_mono_rel[rotated]) (simp add: index_desc_year_desc_def)
  have e: "recordsForCountry seed ''chile''
       = [\<lparr>country = JStr ''Chile'', year = JNum (Fin 2021), FreedomIndex = Some (83 / 10)\<rparr>,
          \<lparr>country = JStr ''Chile'', year = JNum (Fin 2020), FreedomIndex = Some (81 / 10)\<rparr>]"
    by code_simp
  show ?thesis
    by (intro conjI) (rule a mset_sort_by o e)+
qed

text \<open>
  C8 on the dataset with the country U+00C5 \<^verbatim>\<open>land\<close>. The parameter with the small
  letter U+00E5 differs from the stored name in letter case only (both have the same
  \<open>toLowerCase\<close>), and the query returns no row for it: \<^verbatim>\<open>lower\<close> folds A to Z only.
\<close>

theorem country_query_ascii_fold_only:
  "toLowerCase aland_upper = toLowerCase aland_lower
   \<and> recordsForCountry aland_table aland_upper
       = [\<lparr>country = JStr aland_upper, year = JNum (Fin 2020), FreedomIndex = Some 8\<rparr>]
   \<and> recordsForCountry aland_table aland_lower = []"
  by code_simp

lemma ascii_lower_high_id: "CHR 0x80 \<le> x \<Longrightarrow> ascii_lower x = x"
  by (auto simp: ascii_lower_def less_eq_char_def)

lemma ascii_lower_low: "\<not> CHR 0x80 \<le> x \<Longrightarrow> \<not> CHR 0x80 \<le> ascii_lower x"
  by (auto simp: ascii_lower_def less_eq_char_def)

lemma ascii_lower_high:
  assumes "CHR 0x80 \<le> x" "ascii_lower y = ascii_lower x" shows "y = x"
proof -
  from assms have e: "ascii_lower y = x" by (simp add: ascii_lower_high_id)
  with assms(1) ascii_lower_low[of y] have "CHR 0x80 \<le> y" by auto
  with e show ?thesis by (simp add: ascii_lower_high_id)
qed

lemma toLowerCase_ascii_cong:
  "map ascii_lower a = map ascii_lower b \<Longrightarrow> toLowerCase a = toLowerCase b"
proof (induction a arbitrary: b rule: toLowerCase.induct)
  case 1
  then show ?case by simp
next
  case (2 c)
  then show ?case by (cases b) auto
next
  case (3 c d r)
  from "3.prems" obtain c' d' r' where b: "b = c' # d' # r'"
    and c: "ascii_lower c = ascii_lower c'" and d: "ascii_lower d = ascii_lower d'"
    and r: "map ascii_lower r = map ascii_lower r'"
    by (cases b; cases "tl b") auto
  let ?A = "\<lambda>c d. c = CHR 0xC3 \<and> CHR 0x80 \<le> d \<and> d \<le> CHR 0x9E \<and> d \<noteq> CHR 0x97"
  have hc: "CHR 0x80 \<le> CHR 0xC3" by (simp add: less_eq_char_def)
  have same: "c' = c \<and> d' = d" if "?A c d \<or> ?A c' d'"
  proof -
    from that have "(CHR 0x80 \<le> c \<or> CHR 0x80 \<le> c') \<and> (CHR 0x80 \<le> d \<or> CHR 0x80 \<le> d')"
      using hc by auto
    then show ?thesis
      using ascii_lower_high[of c c'] ascii_lower_high[of c' c]
        ascii_lower_high[of d d'] ascii_lower_high[of d' d] c d by auto
  qed
  show ?case
  proof (cases "?A c d")
    case True
    with same have e: "c' = c" "d' = d" by auto
    have L: "toLowerCase (c # d # r) = c # char_of (of_char d + (32::nat)) # toLowerCase r"
      using True by simp
    have R: "toLowerCase (c # d # r') = c # char_of (of_char d + (32::nat)) # toLowerCase r'"
      using True by simp
    show ?thesis unfolding b e L R "3.IH"(1)[OF True r] by (rule refl)
  next
    case False
    with same have n: "\<not> ?A c' d'" by auto
    have "map ascii_lower (d # r) = map ascii_lower (d' # r')" using d r by simp
    from "3.IH"(2)[OF False this]
    have ih: "toLowerCase (d # r) = toLowerCase (d' # r')" .
    have L: "toLowerCase (c # d # r) = ascii_lower c # toLowerCase (d # r)"
      by (subst toLowerCase.simps(3)) (simp only: False if_False)
    have R: "toLowerCase (c' # d' # r') = ascii_lower c' # toLowerCase (d' # r')"
      by (subst toLowerCase.simps(3)) (simp only: n if_False)
    show ?thesis unfolding b L R ih c by (rule refl)
  qed
qed


text \<open>
  What holds of the country route for two path parameters that differ only in the case
  of the letters A to Z: the lookup gives the same index, the detail query the same
  rows, and the two requests get the same page, or each its own 404 message.
\<close>

lemma country_page_ascii_case:
  assumes "map ascii_lower p1 = map ascii_lower p2"
  shows "country_index keys p1 = country_index keys p2
         \<and> recordsForCountry table p1 = recordsForCountry table p2
         \<and> (country_page templates table p1 = country_page templates table p2
              \<or> (country_page templates table p1
                    = Inr \<lparr>status = 404, body = ''Error: no data for country '' @ p1\<rparr>
                  \<and> country_page templates table p2
                    = Inr \<lparr>status = 404, body = ''Error: no data for country '' @ p2\<rparr>))"
proof -
  from assms have low: "toLowerCase p1 = toLowerCase p2" by (rule toLowerCase_ascii_cong)
  then have idx: "country_index keys p1 = country_index keys p2" for keys
    by (simp add: country_index_def)
  from assms have "sql_lower p1 = sql_lower p2" by (simp add: sql_lower_def)
  then have "country_matches p1 = country_matches p2"
    by (auto simp: country_matches_def fun_eq_iff split: option.splits)
  then have recs: "recordsForCountry table p1 = recordsForCountry table p2"
    by (simp add: recordsForCountry_def)
  have page: "country_page templates table p1 = country_page templates table p2
              \<or> (country_page templates table p1
                    = Inr \<lparr>status = 404, body = ''Error: no data for country '' @ p1\<rparr>
                  \<and> country_page templates table p2
                    = Inr \<lparr>status = 404, body = ''Error: no data for country '' @ p2\<rparr>)"
  proof -
    let ?K = "listDistinctCountries table"
    have i: "country_index ?K p1 = country_index ?K p2" by (rule idx)
    show ?thesis
    proof (cases "country_index ?K p2 = - 1")
      case True
      with i show ?thesis
        by (simp add: country_page_def country_route_def)
    next
      case found: False
      show ?thesis
      proof (cases "recordsForCountry table p2")
        case Nil
        with found i recs show ?thesis
          by (simp add: country_page_def country_route_def)
      next
        case (Cons r0 rs)
        with found i recs show ?thesis
          by (simp add: country_page_def country_route_def Let_def)
      qed
    qed
  qed
  from idx recs page show ?thesis by blast
qed

text \<open>
  C4 on the same dataset. The two path parameters differ in letter case only. The
  lookup in the country sequence folds both with \<open>toLowerCase\<close> and finds the key for
  either; the detail query finds the row for one and none for the other, so one request
  is answered with the table and the other with 404.
\<close>

theorem country_page_case_mismatch:
  "toLowerCase aland_upper = toLowerCase aland_lower
   \<and> country_index (listDistinctCountries aland_table) aland_upper = 0
   \<and> country_index (listDistinctCountries aland_table) aland_lower = 0
   \<and> country_page table_templates aland_table aland_upper
       = Inr \<lparr>status = 200,
              body = ''<table>'' @ indent 16 @ ''<tr>'' @ indent 20 @ ''<td>2020</td>''
                       @ indent 20 @ ''<td>8</td>'' @ indent 16 @ ''</tr>'' @ indent 12
                       @ ''</table>''\<rparr>
   \<and> country_page table_templates aland_table aland_lower
       = Inr \<lparr>status = 404, body = ''Error: no data for country '' @ aland_lower\<rparr>"
  by code_simp

end
